theory Spec2Isabelle
  imports Main "HOL-Library.Word"
begin

section \<open>Go values: results, errors, bytes and big integers\<close>

text \<open>
  A Go call either returns normally, returns a non-nil \<open>error\<close>, or stops with a run-time
  panic.  All three are values of the model.  \<open>fmt.Errorf("msg: %w", err)\<close> is the
  constructor \<open>Wrapped\<close>.
\<close>

datatype error = Error string | Wrapped string error

datatype go_panic = SliceShorterThanArray | IndexOutOfRange | NilDereference

datatype 'a result = Ok 'a | Err error | Panic go_panic

type_synonym byte = "8 word"
type_synonym uint32 = "32 word"
type_synonym uint64 = "64 word"
type_synonym int64 = "64 word"

text \<open>
  \<open>math/big\<close>: a \<open>*big.Int\<close> is an unbounded integer.  \<open>Bytes\<close> is the big-endian
  magnitude without leading zero bytes, \<open>SetBytes\<close> reads a big-endian magnitude,
  \<open>Uint64\<close> keeps the low 64 bits of the magnitude, and \<open>big.NewInt(int64(u))\<close>
  reads the 64 bits of \<open>u\<close> as two's complement.
\<close>

function be_bytes :: "nat \<Rightarrow> byte list" where
  "be_bytes n = (if n = 0 then [] else be_bytes (n div 256) @ [of_nat (n mod 256)])"
  by pat_completeness auto
termination
  by (relation "measure id") auto

declare be_bytes.simps [simp del]

definition big_Bytes :: "int \<Rightarrow> byte list" where
  "big_Bytes x = be_bytes (nat \<bar>x\<bar>)"

definition big_SetBytes :: "byte list \<Rightarrow> int" where
  "big_SetBytes bs = foldl (\<lambda>acc b. acc * 256 + uint b) 0 bs"

definition big_Uint64 :: "int \<Rightarrow> uint64" where
  "big_Uint64 x = word_of_int \<bar>x\<bar>"

definition big_NewInt :: "int64 \<Rightarrow> int" where
  "big_NewInt i = sint i"

text \<open>The conversions \<open>int64(u)\<close> of a \<open>uint64\<close> and of a \<open>uint32\<close>, and \<open>uint32(u)\<close>.\<close>

definition int64_of_uint64 :: "uint64 \<Rightarrow> int64" where
  "int64_of_uint64 u = u"

definition int64_of_uint32 :: "uint32 \<Rightarrow> int64" where
  "int64_of_uint32 u = ucast u"

definition uint32_of_uint64 :: "uint64 \<Rightarrow> uint32" where
  "uint32_of_uint64 u = ucast u"

section \<open>go-ethereum's transaction values\<close>

text \<open>\<open>common.Address\<close> is \<open>[20]byte\<close>.\<close>

typedef address = "{bs :: byte list. length bs = 20}"
  by (rule exI [of _ "replicate 20 0"]) simp

definition Address_Bytes :: "address \<Rightarrow> byte list" where
  "Address_Bytes a = Rep_address a"

definition zero_address :: address where
  "zero_address = Abs_address (replicate 20 0)"

text \<open>
  The conversion \<open>(*common.Address)(b)\<close> of a slice to an array pointer: it panics when the
  slice is shorter than the array and otherwise points at the first 20 bytes.
\<close>

definition slice_to_Address :: "byte list \<Rightarrow> address result" where
  "slice_to_Address b =
     (if length b < 20 then Panic SliceShorterThanArray else Ok (Abs_address (take 20 b)))"

text \<open>
  The three inner transaction structs of \<open>core/types\<close>, and \<open>types.NewTx\<close> wrapping
  one of them.  The big integers are never nil after \<open>NewTx\<close>.
\<close>

record LegacyTx =
  leg_Nonce :: uint64
  leg_GasPrice :: int
  leg_Gas :: uint64
  leg_To :: "address option"
  leg_Value :: int
  leg_Data :: "byte list"
  leg_V :: int
  leg_R :: int
  leg_S :: int

record AccessListTx =
  acl_ChainID :: int
  acl_Nonce :: uint64
  acl_GasPrice :: int
  acl_Gas :: uint64
  acl_To :: "address option"
  acl_Value :: int
  acl_Data :: "byte list"
  acl_AccessList :: "(address \<times> byte list list) list"
  acl_V :: int
  acl_R :: int
  acl_S :: int

record DynamicFeeTx =
  dyn_ChainID :: int
  dyn_Nonce :: uint64
  dyn_GasTipCap :: int
  dyn_GasFeeCap :: int
  dyn_Gas :: uint64
  dyn_To :: "address option"
  dyn_Value :: int
  dyn_Data :: "byte list"
  dyn_AccessList :: "(address \<times> byte list list) list"
  dyn_V :: int
  dyn_R :: int
  dyn_S :: int

datatype Transaction =
  NewLegacyTx LegacyTx
| NewAccessListTx AccessListTx
| NewDynamicFeeTx DynamicFeeTx

text \<open>The accessor methods of \<open>*types.Transaction\<close> that the codec calls.\<close>

fun tx_Type :: "Transaction \<Rightarrow> byte" where
  "tx_Type (NewLegacyTx t) = 0"
| "tx_Type (NewAccessListTx t) = 1"
| "tx_Type (NewDynamicFeeTx t) = 2"

definition deriveChainId :: "int \<Rightarrow> int" where
  "deriveChainId v =
     (if \<bar>v\<bar> < 2 ^ 64 then
        (let w = big_Uint64 v in
         if w = 27 \<or> w = 28 then 0 else uint ((w - 35) div 2))
      else (v - 35) div 2)"

fun tx_ChainId :: "Transaction \<Rightarrow> int" where
  "tx_ChainId (NewLegacyTx t) = deriveChainId (leg_V t)"
| "tx_ChainId (NewAccessListTx t) = acl_ChainID t"
| "tx_ChainId (NewDynamicFeeTx t) = dyn_ChainID t"

fun tx_Nonce :: "Transaction \<Rightarrow> uint64" where
  "tx_Nonce (NewLegacyTx t) = leg_Nonce t"
| "tx_Nonce (NewAccessListTx t) = acl_Nonce t"
| "tx_Nonce (NewDynamicFeeTx t) = dyn_Nonce t"

fun tx_Gas :: "Transaction \<Rightarrow> uint64" where
  "tx_Gas (NewLegacyTx t) = leg_Gas t"
| "tx_Gas (NewAccessListTx t) = acl_Gas t"
| "tx_Gas (NewDynamicFeeTx t) = dyn_Gas t"

fun tx_GasPrice :: "Transaction \<Rightarrow> int" where
  "tx_GasPrice (NewLegacyTx t) = leg_GasPrice t"
| "tx_GasPrice (NewAccessListTx t) = acl_GasPrice t"
| "tx_GasPrice (NewDynamicFeeTx t) = dyn_GasFeeCap t"

fun tx_GasFeeCap :: "Transaction \<Rightarrow> int" where
  "tx_GasFeeCap (NewLegacyTx t) = leg_GasPrice t"
| "tx_GasFeeCap (NewAccessListTx t) = acl_GasPrice t"
| "tx_GasFeeCap (NewDynamicFeeTx t) = dyn_GasFeeCap t"

fun tx_GasTipCap :: "Transaction \<Rightarrow> int" where
  "tx_GasTipCap (NewLegacyTx t) = leg_GasPrice t"
| "tx_GasTipCap (NewAccessListTx t) = acl_GasPrice t"
| "tx_GasTipCap (NewDynamicFeeTx t) = dyn_GasTipCap t"

fun tx_To :: "Transaction \<Rightarrow> address option" where
  "tx_To (NewLegacyTx t) = leg_To t"
| "tx_To (NewAccessListTx t) = acl_To t"
| "tx_To (NewDynamicFeeTx t) = dyn_To t"

fun tx_Value :: "Transaction \<Rightarrow> int" where
  "tx_Value (NewLegacyTx t) = leg_Value t"
| "tx_Value (NewAccessListTx t) = acl_Value t"
| "tx_Value (NewDynamicFeeTx t) = dyn_Value t"

fun tx_Data :: "Transaction \<Rightarrow> byte list" where
  "tx_Data (NewLegacyTx t) = leg_Data t"
| "tx_Data (NewAccessListTx t) = acl_Data t"
| "tx_Data (NewDynamicFeeTx t) = dyn_Data t"

fun tx_RawSignatureValues :: "Transaction \<Rightarrow> int \<times> int \<times> int" where
  "tx_RawSignatureValues (NewLegacyTx t) = (leg_V t, leg_R t, leg_S t)"
| "tx_RawSignatureValues (NewAccessListTx t) = (acl_V t, acl_R t, acl_S t)"
| "tx_RawSignatureValues (NewDynamicFeeTx t) = (dyn_V t, dyn_R t, dyn_S t)"

text \<open>
  A signer value; \<open>types.NewLondonSigner(chainId)\<close> builds one for a chain id.  Sender
  recovery \<open>types.Sender(signer, tx)\<close> and the transaction hash \<open>tx.Hash()\<close> are
  go-ethereum's cryptography; the codec receives them as the parameters \<open>sender\<close> and
  \<open>hash\<close>.
\<close>

datatype Signer = LondonSigner int

definition NewLondonSigner :: "int \<Rightarrow> Signer" where
  "NewLondonSigner chainId = LondonSigner chainId"

definition Big1 :: int where
  "Big1 = 1"

section \<open>The wire transaction and the codec (client.go)\<close>

record eth_Transaction =
  ChainId :: uint32
  To :: "byte list"
  Gas :: uint64
  GasPrice :: uint64
  MaxFee :: uint64
  PriorityFee :: uint64
  Hash :: "byte list"
  Input :: "byte list"
  Nonce :: uint64
  Value :: "byte list"
  From :: "byte list"
  Type :: uint32
  V :: uint64
  R :: "byte list"
  S :: "byte list"

definition TxToProto ::
  "(Signer \<Rightarrow> Transaction \<Rightarrow> error + address) \<Rightarrow> (Transaction \<Rightarrow> byte list) \<Rightarrow>
   Transaction \<Rightarrow> eth_Transaction result" where
  "TxToProto sender hash tx =
     (let signer = NewLondonSigner Big1 in
      case sender signer tx of
        Inl err \<Rightarrow> Err err
      | Inr sndr \<Rightarrow>
          (let to = (case tx_To tx of None \<Rightarrow> [] | Some a \<Rightarrow> Address_Bytes a);
               (v, r, s) = tx_RawSignatureValues tx
           in Ok \<lparr> ChainId = uint32_of_uint64 (big_Uint64 (tx_ChainId tx)),
                   To = to,
                   Gas = tx_Gas tx,
                   GasPrice = big_Uint64 (tx_GasPrice tx),
                   MaxFee = big_Uint64 (tx_GasFeeCap tx),
                   PriorityFee = big_Uint64 (tx_GasTipCap tx),
                   Hash = hash tx,
                   Input = tx_Data tx,
                   Nonce = tx_Nonce tx,
                   Value = big_Bytes (tx_Value tx),
                   From = Address_Bytes sndr,
                   Type = ucast (tx_Type tx),
                   V = big_Uint64 v,
                   R = big_Bytes r,
                   S = big_Bytes s \<rparr>))"

text \<open>
  \<open>ProtoToTx\<close> returns a pointer: \<open>Ok None\<close> is the nil result after the \<open>switch\<close>.  The
  recipient starts as \<open>new(common.Address)\<close>, the zero address, and is replaced by the
  converted slice when the wire field is not empty; that conversion runs before the
  \<open>switch\<close> and can panic.
\<close>

definition ProtoToTx :: "eth_Transaction \<Rightarrow> Transaction option result" where
  "ProtoToTx proto =
     (case (if length (To proto) > 0 then slice_to_Address (To proto) else Ok zero_address) of
        Panic p \<Rightarrow> Panic p
      | Err e \<Rightarrow> Err e
      | Ok to \<Rightarrow>
          (if Type proto = 0 then
             Ok (Some (NewLegacyTx
               \<lparr> leg_Nonce = Nonce proto,
                 leg_GasPrice = big_NewInt (int64_of_uint64 (GasPrice proto)),
                 leg_Gas = Gas proto,
                 leg_To = Some to,
                 leg_Value = big_SetBytes (Value proto),
                 leg_Data = Input proto,
                 leg_V = big_NewInt (int64_of_uint64 (V proto)),
                 leg_R = big_SetBytes (R proto),
                 leg_S = big_SetBytes (S proto) \<rparr>))
           else if Type proto = 1 then
             Ok (Some (NewAccessListTx
               \<lparr> acl_ChainID = big_NewInt (int64_of_uint32 (ChainId proto)),
                 acl_Nonce = Nonce proto,
                 acl_GasPrice = big_NewInt (int64_of_uint64 (GasPrice proto)),
                 acl_Gas = Gas proto,
                 acl_To = Some to,
                 acl_Value = big_SetBytes (Value proto),
                 acl_Data = Input proto,
                 acl_AccessList = [],
                 acl_V = big_NewInt (int64_of_uint64 (V proto)),
                 acl_R = big_SetBytes (R proto),
                 acl_S = big_SetBytes (S proto) \<rparr>))
           else if Type proto = 2 then
             Ok (Some (NewDynamicFeeTx
               \<lparr> dyn_ChainID = big_NewInt (int64_of_uint32 (ChainId proto)),
                 dyn_Nonce = Nonce proto,
                 dyn_GasTipCap = big_NewInt (int64_of_uint64 (PriorityFee proto)),
                 dyn_GasFeeCap = big_NewInt (int64_of_uint64 (MaxFee proto)),
                 dyn_Gas = Gas proto,
                 dyn_To = Some to,
                 dyn_Value = big_SetBytes (Value proto),
                 dyn_Data = Input proto,
                 dyn_AccessList = [],
                 dyn_V = big_NewInt (int64_of_uint64 (V proto)),
                 dyn_R = big_SetBytes (R proto),
                 dyn_S = big_SetBytes (S proto) \<rparr>))
           else Ok None))"


section \<open>The streaming client (the second client.go)\<close>

text \<open>
  A context is modelled by the outgoing metadata it carries.  A bidirectional stream handle
  is the object the generated stub returns: \<open>Send\<close> gives the error of writing a message
  (\<open>None\<close> is nil) and \<open>Recv\<close> the outcome of the next read.
\<close>

type_synonym go_context = "(string \<times> string) list"

definition Background :: go_context where
  "Background = []"

definition AppendToOutgoingContext :: "go_context \<Rightarrow> string \<Rightarrow> string \<Rightarrow> go_context" where
  "AppendToOutgoingContext ctx k v = ctx @ [(k, v)]"

record ('m, 'r) stream =
  Send :: "'m \<Rightarrow> error option"
  Recv :: "error + 'r"

record TransactionResponse =
  resp_Hash :: string
  resp_Timestamp :: int64

record TxSequenceResponse =
  SequenceResponse :: "TransactionResponse list"

record RawTxMsg =
  RawTx :: "byte list"

record TxSequenceMsg =
  Sequence :: "eth_Transaction list"

record RawTxSequenceMsg =
  RawTxs :: "byte list list"

text \<open>
  The stub \<open>api.APIClient\<close>: each stream-opening method returns a pair (stream, error), as
  in Go; the stream component is what the caller's field receives whether or not the error
  is nil.
\<close>

record APIClient =
  api_SendTransaction ::
    "go_context \<Rightarrow> (eth_Transaction, TransactionResponse) stream option \<times> error option"
  api_SendRawTransaction ::
    "go_context \<Rightarrow> (RawTxMsg, TransactionResponse) stream option \<times> error option"
  api_SendTransactionSequence ::
    "go_context \<Rightarrow> (TxSequenceMsg, TxSequenceResponse) stream option \<times> error option"
  api_SendRawTransactionSequence ::
    "go_context \<Rightarrow> (RawTxSequenceMsg, TxSequenceResponse) stream option \<times> error option"

datatype ClientConn = ClientConn nat

record Client =
  target :: string
  conn :: "ClientConn option"
  client :: "APIClient option"
  key :: string
  txStream :: "(eth_Transaction, TransactionResponse) stream option"
  rawTxStream :: "(RawTxMsg, TransactionResponse) stream option"
  txSeqStream :: "(TxSequenceMsg, TxSequenceResponse) stream option"
  rawTxSeqStream :: "(RawTxSequenceMsg, TxSequenceResponse) stream option"

definition NewClient :: "string \<Rightarrow> string \<Rightarrow> Client" where
  "NewClient tgt apiKey =
     \<lparr> target = tgt, conn = None, client = None, key = apiKey,
       txStream = None, rawTxStream = None, txSeqStream = None, rawTxSeqStream = None \<rparr>"

text \<open>
  \<open>Connect\<close> returns its error (\<open>None\<close> is nil) and the client as the assignments left
  it.  \<open>DialContext\<close> gives the outcome of dialing the target and \<open>NewAPIClient\<close> the
  stub built on the connection.
\<close>

definition Connect ::
  "(string \<Rightarrow> error + ClientConn) \<Rightarrow> (ClientConn \<Rightarrow> APIClient) \<Rightarrow> Client \<Rightarrow>
   error option \<times> Client" where
  "Connect DialContext NewAPIClient c =
     (case DialContext (target c) of
        Inl err \<Rightarrow> (Some err, c)
      | Inr cn \<Rightarrow>
          (let stub = NewAPIClient cn;
               c1 = c\<lparr>conn := Some cn, client := Some stub\<rparr>;
               ctx = AppendToOutgoingContext Background ''x-api-key'' (key c1);
               (s1, err1) = api_SendTransaction stub ctx;
               c2 = c1\<lparr>txStream := s1\<rparr>
           in if err1 \<noteq> None then (err1, c2)
              else
                (let (s2, err2) = api_SendRawTransaction stub ctx;
                     c3 = c2\<lparr>rawTxStream := s2\<rparr>
                 in if err2 \<noteq> None then (err2, c3)
                    else
                      (let (s3, err3) = api_SendTransactionSequence stub ctx;
                           c4 = c3\<lparr>txSeqStream := s3\<rparr>
                       in if err3 \<noteq> None then (err3, c4)
                          else
                            (let (s4, err4) = api_SendRawTransactionSequence stub ctx;
                                 c5 = c4\<lparr>rawTxSeqStream := s4\<rparr>
                             in if err4 \<noteq> None then (err4, c5)
                                else (None, c5))))))"

subsection \<open>Sending: one write unit and one read\<close>

text \<open>
  Each send operation starts a goroutine that writes the message and, only if the write
  failed, offers the error on the unbuffered channel \<open>errc\<close>.  The caller polls \<open>errc\<close>
  once with a \<open>select\<close> that has a \<open>default\<close> branch and then blocks in \<open>Recv\<close>; both
  branches after \<open>Recv\<close> return, so the enclosing \<open>for\<close> runs its body once.  What the
  \<open>select\<close> sees depends on the interleaving: either the goroutine has finished its write
  before the caller polls, or the caller polls first.
\<close>

datatype interleaving = WriteFirst | SelectFirst

definition correlate :: "interleaving \<Rightarrow> error option \<Rightarrow> 'a result \<Rightarrow> 'a result" where
  "correlate il sent received =
     (case (il, sent) of
        (WriteFirst, Some err) \<Rightarrow> Err err
      | _ \<Rightarrow> received)"

text \<open>
  The same protocol as a step relation over the two execution units, for any order of
  their steps.  The goroutine blocked on \<open>errc\<close> is \<open>Offering\<close>; the \<open>select\<close> takes
  the error exactly when one is offered and falls to \<open>default\<close> otherwise.
\<close>

datatype 'a caller = AtSelect | AtRecv | Returned "'a result"

datatype send_unit = Writing | Offering error | Finished

fun offering :: "send_unit \<Rightarrow> bool" where
  "offering (Offering e) = True"
| "offering u = False"

inductive correlate_step ::
  "error option \<Rightarrow> 'a result \<Rightarrow> 'a caller \<times> send_unit \<Rightarrow> 'a caller \<times> send_unit \<Rightarrow> bool"
  for sent :: "error option" and received :: "'a result" where
  write_ok: "sent = None \<Longrightarrow> correlate_step sent received (m, Writing) (m, Finished)"
| write_failed: "sent = Some e \<Longrightarrow> correlate_step sent received (m, Writing) (m, Offering e)"
| select_errc:
    "correlate_step sent received (AtSelect, Offering e) (Returned (Err e), Finished)"
| select_default:
    "\<not> offering u \<Longrightarrow> correlate_step sent received (AtSelect, u) (AtRecv, u)"
| recv_returns:
    "correlate_step sent received (AtRecv, u) (Returned received, u)"

definition SendTransaction ::
  "(Signer \<Rightarrow> Transaction \<Rightarrow> error + address) \<Rightarrow> (Transaction \<Rightarrow> byte list) \<Rightarrow>
   interleaving \<Rightarrow> Client \<Rightarrow> Transaction \<Rightarrow> (string \<times> int64) result" where
  "SendTransaction sender hash il c tx =
     (case TxToProto sender hash tx of
        Err err \<Rightarrow> Err (Wrapped ''converting to protobuf'' err)
      | Panic p \<Rightarrow> Panic p
      | Ok proto \<Rightarrow>
          (case txStream c of
             None \<Rightarrow> Panic NilDereference
           | Some st \<Rightarrow>
               correlate il (Send st proto)
                 (case Recv st of
                    Inl err \<Rightarrow> Err err
                  | Inr res \<Rightarrow> Ok (resp_Hash res, resp_Timestamp res))))"

definition SendRawTransaction ::
  "interleaving \<Rightarrow> Client \<Rightarrow> byte list \<Rightarrow> (string \<times> int64) result" where
  "SendRawTransaction il c rawTx =
     (case rawTxStream c of
        None \<Rightarrow> Panic NilDereference
      | Some st \<Rightarrow>
          correlate il (Send st \<lparr> RawTx = rawTx \<rparr>)
            (case Recv st of
               Inl err \<Rightarrow> Err err
             | Inr res \<Rightarrow> Ok (resp_Hash res, resp_Timestamp res)))"

text \<open>
  The sequence operations index the response collection at 0 for the timestamp before
  copying the hashes; on an empty collection that index expression panics.
\<close>

definition sequence_result :: "error + TxSequenceResponse \<Rightarrow> (string list \<times> int64) result" where
  "sequence_result r =
     (case r of
        Inl err \<Rightarrow> Err err
      | Inr res \<Rightarrow>
          (case SequenceResponse res of
             [] \<Rightarrow> Panic IndexOutOfRange
           | first # rest \<Rightarrow>
               Ok (map resp_Hash (SequenceResponse res), resp_Timestamp first)))"

fun protoSeq_loop ::
  "(Signer \<Rightarrow> Transaction \<Rightarrow> error + address) \<Rightarrow> (Transaction \<Rightarrow> byte list) \<Rightarrow>
   Transaction list \<Rightarrow> eth_Transaction list result" where
  "protoSeq_loop sender hash [] = Ok []"
| "protoSeq_loop sender hash (tx # txs) =
     (case TxToProto sender hash tx of
        Err err \<Rightarrow> Err err
      | Panic p \<Rightarrow> Panic p
      | Ok proto \<Rightarrow>
          (case protoSeq_loop sender hash txs of
             Err err \<Rightarrow> Err err
           | Panic p \<Rightarrow> Panic p
           | Ok protos \<Rightarrow> Ok (proto # protos)))"

definition SendTransactionSequence ::
  "(Signer \<Rightarrow> Transaction \<Rightarrow> error + address) \<Rightarrow> (Transaction \<Rightarrow> byte list) \<Rightarrow>
   interleaving \<Rightarrow> Client \<Rightarrow> Transaction list \<Rightarrow> (string list \<times> int64) result" where
  "SendTransactionSequence sender hash il c transactions =
     (case protoSeq_loop sender hash transactions of
        Err err \<Rightarrow> Err err
      | Panic p \<Rightarrow> Panic p
      | Ok protoSeq \<Rightarrow>
          (case txSeqStream c of
             None \<Rightarrow> Panic NilDereference
           | Some st \<Rightarrow>
               correlate il (Send st \<lparr> Sequence = protoSeq \<rparr>) (sequence_result (Recv st))))"

definition SendRawTransactionSequence ::
  "interleaving \<Rightarrow> Client \<Rightarrow> byte list list \<Rightarrow> (string list \<times> int64) result" where
  "SendRawTransactionSequence il c rawTransactions =
     (case rawTxSeqStream c of
        None \<Rightarrow> Panic NilDereference
      | Some st \<Rightarrow>
          correlate il (Send st \<lparr> RawTxs = rawTransactions \<rparr>) (sequence_result (Recv st)))"


subsection \<open>Subscriptions\<close>

text \<open>
  A server stream is the sequence of outcomes of its \<open>Recv\<close> calls; it may go on for ever.
  What a subscription does to the caller's channel is recorded as a log of the sends and
  closes it performs, in order; a send is taken to complete (the caller's channel is open
  and drained).  The receive loop runs on fuel, one unit per \<open>Recv\<close>: the second component
  of the result is \<open>Some err\<close> once the call has returned \<open>err\<close> and \<open>None\<close> while it is
  still blocked in the loop.  The decoder each kind calls (for transactions the one into
  the streaming client's own \<open>Transaction\<close> type) and the filter encoder are declared
  outside these files; they are parameters, and a decoder gives a value for every message.
\<close>

datatype 'e chan_event = ChanSend 'e | ChanClose

fun recv_loop ::
  "(nat \<Rightarrow> error + 'p) \<Rightarrow> ('p \<Rightarrow> 'e) \<Rightarrow> nat \<Rightarrow> nat \<Rightarrow> 'e chan_event list \<Rightarrow>
   'e chan_event list \<times> error option" where
  "recv_loop res decode 0 k ch = (ch, None)"
| "recv_loop res decode (Suc fuel) k ch =
     (case res k of
        Inl err \<Rightarrow> (ch @ [ChanClose], Some err)
      | Inr proto \<Rightarrow> recv_loop res decode fuel (Suc k) (ch @ [ChanSend (decode proto)]))"

record TxFilter =
  Encoded :: "byte list"

definition SubscribeNewTxs ::
  "(go_context \<Rightarrow> TxFilter \<Rightarrow> error + (nat \<Rightarrow> error + 'p)) \<Rightarrow> ('f \<Rightarrow> byte list) \<Rightarrow>
   ('p \<Rightarrow> 'e) \<Rightarrow> nat \<Rightarrow> Client \<Rightarrow> 'f option \<Rightarrow> 'e chan_event list \<times> error option" where
  "SubscribeNewTxs api_SubscribeNewTxs Encode ProtoToTx' fuel c filter' =
     (let ctx = AppendToOutgoingContext Background ''x-api-key'' (key c);
          protoFilter = (case filter' of
                           None \<Rightarrow> \<lparr> Encoded = [] \<rparr>
                         | Some f \<Rightarrow> \<lparr> Encoded = Encode f \<rparr>)
      in case api_SubscribeNewTxs ctx protoFilter of
           Inl err \<Rightarrow> ([], Some (Wrapped ''subscribing to transactions'' err))
         | Inr res \<Rightarrow> recv_loop res ProtoToTx' fuel 0 [])"

definition SubscribeNewExecutionPayloadHeaders ::
  "(go_context \<Rightarrow> error + (nat \<Rightarrow> error + 'p)) \<Rightarrow> ('p \<Rightarrow> 'e) \<Rightarrow> nat \<Rightarrow> Client \<Rightarrow>
   'e chan_event list \<times> error option" where
  "SubscribeNewExecutionPayloadHeaders api_SubscribeExecutionHeaders ProtoToHeader fuel c =
     (let ctx = AppendToOutgoingContext Background ''x-api-key'' (key c)
      in case api_SubscribeExecutionHeaders ctx of
           Inl err \<Rightarrow> ([], Some (Wrapped ''subscribing to blocks'' err))
         | Inr res \<Rightarrow> recv_loop res ProtoToHeader fuel 0 [])"

definition SubscribeNewExecutionPayloads ::
  "(go_context \<Rightarrow> error + (nat \<Rightarrow> error + 'p)) \<Rightarrow> ('p \<Rightarrow> 'e) \<Rightarrow> nat \<Rightarrow> Client \<Rightarrow>
   'e chan_event list \<times> error option" where
  "SubscribeNewExecutionPayloads api_SubscribeExecutionPayloads ProtoToBlock fuel c =
     (let ctx = AppendToOutgoingContext Background ''x-api-key'' (key c)
      in case api_SubscribeExecutionPayloads ctx of
           Inl err \<Rightarrow> ([], Some (Wrapped ''subscribing to blocks'' err))
         | Inr res \<Rightarrow> recv_loop res ProtoToBlock fuel 0 [])"

definition SubscribeNewBeaconBlocks ::
  "(go_context \<Rightarrow> error + (nat \<Rightarrow> error + 'p)) \<Rightarrow> ('p \<Rightarrow> 'e) \<Rightarrow> nat \<Rightarrow> Client \<Rightarrow>
   'e chan_event list \<times> error option" where
  "SubscribeNewBeaconBlocks api_SubscribeBeaconBlocks ProtoToBeaconBlock fuel c =
     (let ctx = AppendToOutgoingContext Background ''x-api-key'' (key c)
      in case api_SubscribeBeaconBlocks ctx of
           Inl err \<Rightarrow> ([], Some (Wrapped ''subscribing to blocks'' err))
         | Inr res \<Rightarrow> recv_loop res ProtoToBeaconBlock fuel 0 [])"

section \<open>Concrete inputs\<close>

text \<open>
  Values at which the properties below are evaluated.  \<open>recovers_to a\<close> is a sender
  recovery that succeeds with \<open>a\<close> for every signer and transaction.
  \<open>chain_id_checking_sender\<close> is a sender recovery that, as go-ethereum's London signer
  does for typed transactions, returns its invalid-chain-id error when the transaction's
  chain id differs from the signer's.
\<close>

definition recovers_to :: "address \<Rightarrow> Signer \<Rightarrow> Transaction \<Rightarrow> error + address" where
  "recovers_to a signer tx = Inr a"

definition chain_id_checking_sender :: "address \<Rightarrow> Signer \<Rightarrow> Transaction \<Rightarrow> error + address" where
  "chain_id_checking_sender a signer tx =
     (case signer of
        LondonSigner chainId \<Rightarrow>
          if tx_Type tx \<noteq> 0 \<and> tx_ChainId tx \<noteq> chainId
          then Inl (Error ''invalid chain id for signer'')
          else Inr a)"

definition no_hash :: "Transaction \<Rightarrow> byte list" where
  "no_hash tx = []"

definition addr1 :: address where
  "addr1 = Abs_address (replicate 20 1)"

definition addr2 :: address where
  "addr2 = Abs_address (replicate 20 2)"

definition transfer_tx :: Transaction where
  "transfer_tx = NewLegacyTx
     \<lparr> leg_Nonce = 5, leg_GasPrice = 1000000000, leg_Gas = 21000, leg_To = Some addr1,
       leg_Value = 1000000000000000000, leg_Data = [], leg_V = 37, leg_R = 11, leg_S = 12 \<rparr>"

definition creation_tx :: Transaction where
  "creation_tx = NewLegacyTx
     \<lparr> leg_Nonce = 0, leg_GasPrice = 1000000000, leg_Gas = 53000, leg_To = None,
       leg_Value = 0, leg_Data = [96, 128], leg_V = 38, leg_R = 21, leg_S = 22 \<rparr>"

definition creation_dyn :: DynamicFeeTx where
  "creation_dyn =
     \<lparr> dyn_ChainID = 1, dyn_Nonce = 3, dyn_GasTipCap = 2, dyn_GasFeeCap = 30, dyn_Gas = 60000,
       dyn_To = None, dyn_Value = 0, dyn_Data = [96], dyn_AccessList = [],
       dyn_V = 1, dyn_R = 31, dyn_S = 32 \<rparr>"

definition creation_dyn_proto :: eth_Transaction where
  "creation_dyn_proto =
     \<lparr> ChainId = 1, To = [], Gas = 60000, GasPrice = 30, MaxFee = 30, PriorityFee = 2,
       Hash = [], Input = [96], Nonce = 3, Value = [], From = replicate 20 2, Type = 2,
       V = 1, R = [31], S = [32] \<rparr>"

definition access_list_proto :: eth_Transaction where
  "access_list_proto =
     \<lparr> ChainId = 1, To = replicate 20 1, Gas = 30000, GasPrice = 7, MaxFee = 7,
       PriorityFee = 7, Hash = [], Input = [], Nonce = 1, Value = [9], From = replicate 20 2,
       Type = 1, V = 0, R = [41], S = [42] \<rparr>"

definition access_list_tx :: "int \<Rightarrow> Transaction" where
  "access_list_tx chainId = NewAccessListTx
     \<lparr> acl_ChainID = chainId, acl_Nonce = 1, acl_GasPrice = 7, acl_Gas = 30000,
       acl_To = Some addr1, acl_Value = 9, acl_Data = [], acl_AccessList = [],
       acl_V = 0, acl_R = 41, acl_S = 42 \<rparr>"

definition unknown_tag_proto :: "byte list \<Rightarrow> eth_Transaction" where
  "unknown_tag_proto recipient =
     \<lparr> ChainId = 1, To = recipient, Gas = 21000, GasPrice = 7, MaxFee = 0, PriorityFee = 0,
       Hash = [], Input = [], Nonce = 0, Value = [], From = [], Type = 7,
       V = 0, R = [], S = [] \<rparr>"

definition oversized_dyn :: DynamicFeeTx where
  "oversized_dyn =
     \<lparr> dyn_ChainID = 4294967297, dyn_Nonce = 3, dyn_GasTipCap = 9223372036854775808,
       dyn_GasFeeCap = 18446744073709551646, dyn_Gas = 60000, dyn_To = Some addr1,
       dyn_Value = - 9, dyn_Data = [], dyn_AccessList = [],
       dyn_V = 9223372036854775809, dyn_R = - 31, dyn_S = - 32 \<rparr>"

definition tag3_proto :: eth_Transaction where
  "tag3_proto =
     \<lparr> ChainId = 1, To = [], Gas = 21000, GasPrice = 7, MaxFee = 0, PriorityFee = 0,
       Hash = [], Input = [], Nonce = 2, Value = [5], From = replicate 20 2, Type = 3,
       V = 1, R = [3], S = [4] \<rparr>"

text \<open>
  Streams and stubs: a stream that answers every call with one response, a stub whose third
  stream fails to open, and clients holding sequence streams with given behaviour.
\<close>

definition answering_stream :: "('m, TransactionResponse) stream" where
  "answering_stream =
     \<lparr> Send = (\<lambda>m. None), Recv = Inr \<lparr> resp_Hash = ''0xaa'', resp_Timestamp = 7 \<rparr> \<rparr>"

definition sequence_stream ::
  "error option \<Rightarrow> TransactionResponse list \<Rightarrow> ('m, TxSequenceResponse) stream" where
  "sequence_stream sent items =
     \<lparr> Send = (\<lambda>m. sent), Recv = Inr \<lparr> SequenceResponse = items \<rparr> \<rparr>"

definition broken_stream :: "('m, 'r) stream" where
  "broken_stream =
     \<lparr> Send = (\<lambda>m. Some (Error ''EOF'')),
       Recv = Inl (Error ''rpc error: code = Unavailable'') \<rparr>"

definition third_open_fails :: APIClient where
  "third_open_fails =
     \<lparr> api_SendTransaction = (\<lambda>ctx. (Some answering_stream, None)),
       api_SendRawTransaction = (\<lambda>ctx. (Some answering_stream, None)),
       api_SendTransactionSequence = (\<lambda>ctx. (None, Some (Error ''stream refused''))),
       api_SendRawTransactionSequence = (\<lambda>ctx. (Some (sequence_stream None []), None)) \<rparr>"

definition dial_ok :: "string \<Rightarrow> error + ClientConn" where
  "dial_ok tgt = Inr (ClientConn 0)"

definition raw_seq_client :: "(RawTxSequenceMsg, TxSequenceResponse) stream \<Rightarrow> Client" where
  "raw_seq_client st = (NewClient ''host'' ''k'')\<lparr>rawTxSeqStream := Some st\<rparr>"

definition raw_client :: "(RawTxMsg, TransactionResponse) stream \<Rightarrow> Client" where
  "raw_client st = (NewClient ''host'' ''k'')\<lparr>rawTxStream := Some st\<rparr>"

definition two_then_eof :: "nat \<Rightarrow> error + nat" where
  "two_then_eof k = (if k = 0 then Inr 10 else if k = 1 then Inr 20 else Inl (Error ''EOF''))"

section \<open>Bytes and machine integers\<close>

lemma big_SetBytes_snoc: "big_SetBytes (bs @ [b]) = big_SetBytes bs * 256 + uint b"
  by (simp add: big_SetBytes_def)

lemma big_SetBytes_be_bytes: "big_SetBytes (be_bytes n) = int n"
proof (induction n rule: be_bytes.induct)
  case (1 n)
  show ?case
  proof (cases "n = 0")
    case True
    then show ?thesis by (simp add: be_bytes.simps big_SetBytes_def)
  next
    case False
    have "uint (of_nat (n mod 256) :: byte) = int (n mod 256)"
      by (simp add: uint_nat unat_of_nat)
    with False 1 show ?thesis
      by (subst be_bytes.simps) (simp add: big_SetBytes_snoc zmod_int zdiv_int)
  qed
qed

lemma big_SetBytes_Bytes: "0 \<le> x \<Longrightarrow> big_SetBytes (big_Bytes x) = x"
  by (simp add: big_Bytes_def big_SetBytes_be_bytes)

lemma sint64_small: "0 \<le> x \<Longrightarrow> x < 2 ^ 63 \<Longrightarrow> sint (word_of_int x :: 64 word) = x"
  by (simp add: sint_sbintrunc' signed_take_bit_int_eq_self)

lemma big_NewInt_Uint64:
  "0 \<le> x \<Longrightarrow> x < 2 ^ 63 \<Longrightarrow> big_NewInt (int64_of_uint64 (big_Uint64 x)) = x"
  by (simp add: big_NewInt_def int64_of_uint64_def big_Uint64_def sint64_small)

lemma uint32_small:
  assumes "0 \<le> x" and "x < 2 ^ 32"
  shows "uint (ucast (word_of_int x :: 64 word) :: 32 word) = x"
proof -
  have "(2::int) ^ 32 \<le> 2 ^ 64"
    by (rule power_increasing) simp_all
  with assms(2) have "x < 2 ^ 64" by (rule less_le_trans)
  with assms(1) have a: "take_bit 64 x = x" by (rule take_bit_int_eq_self)
  from assms have b: "take_bit 32 x = x" by (rule take_bit_int_eq_self)
  have "uint (ucast (word_of_int x :: 64 word) :: 32 word)
      = take_bit 32 (uint (word_of_int x :: 64 word))"
    by (simp only: unsigned_ucast_eq) simp
  also have "uint (word_of_int x :: 64 word) = take_bit 64 x"
    by (simp only: uint_word_of_int_eq) simp
  finally show ?thesis by (simp only: a b)
qed

lemma sint_ucast_32_64: "sint (ucast (w :: 32 word) :: 64 word) = uint w"
proof -
  have "uint w < 2 ^ 32" using uint_bounded [of w] by simp
  moreover have "(2::int) ^ 32 \<le> 2 ^ 63"
    by (rule power_increasing) simp_all
  ultimately have lt: "uint w < 2 ^ 63" by (rule less_le_trans)
  have "- (2 ^ 63) \<le> (0::int)" by simp
  also have "0 \<le> uint w" by simp
  finally have ge: "- (2 ^ 63) \<le> uint w" .
  have "sint (ucast w :: 64 word) = signed_take_bit 63 (uint w)"
    by (simp only: signed_ucast_eq) simp
  also have "\<dots> = uint w"
    using ge lt by (rule signed_take_bit_int_eq_self)
  finally show ?thesis .
qed

lemma big_NewInt_uint32:
  "0 \<le> x \<Longrightarrow> x < 2 ^ 32 \<Longrightarrow>
   big_NewInt (int64_of_uint32 (uint32_of_uint64 (big_Uint64 x))) = x"
  by (simp add: big_NewInt_def int64_of_uint32_def uint32_of_uint64_def big_Uint64_def
      sint_ucast_32_64 uint32_small)

lemma slice_to_Address_Bytes: "slice_to_Address (Address_Bytes a) = Ok a"
  using Rep_address [of a]
  by (simp add: slice_to_Address_def Address_Bytes_def Rep_address_inverse)

lemma Address_Bytes_nonempty: "Address_Bytes a \<noteq> []"
  using Rep_address [of a] by (auto simp: Address_Bytes_def)

lemma Address_Bytes_replicate: "Address_Bytes (Abs_address (replicate 20 b)) = replicate 20 b"
  by (simp add: Address_Bytes_def Abs_address_inverse)

section \<open>The codec\<close>

lemma TxToProto_cases:
  "TxToProto sender hash tx =
     (case sender (LondonSigner 1) tx of Inl err \<Rightarrow> Err err
      | Inr sndr \<Rightarrow> Ok \<lparr> ChainId = uint32_of_uint64 (big_Uint64 (tx_ChainId tx)),
                   To = (case tx_To tx of None \<Rightarrow> [] | Some a \<Rightarrow> Address_Bytes a),
                   Gas = tx_Gas tx,
                   GasPrice = big_Uint64 (tx_GasPrice tx),
                   MaxFee = big_Uint64 (tx_GasFeeCap tx),
                   PriorityFee = big_Uint64 (tx_GasTipCap tx),
                   Hash = hash tx,
                   Input = tx_Data tx,
                   Nonce = tx_Nonce tx,
                   Value = big_Bytes (tx_Value tx),
                   From = Address_Bytes sndr,
                   Type = ucast (tx_Type tx),
                   V = big_Uint64 (fst (tx_RawSignatureValues tx)),
                   R = big_Bytes (fst (snd (tx_RawSignatureValues tx))),
                   S = big_Bytes (snd (snd (tx_RawSignatureValues tx))) \<rparr>)"
  by (simp add: TxToProto_def NewLondonSigner_def Big1_def Let_def split_beta split: sum.splits)

lemma TxToProto_Ok_fields:
  assumes "TxToProto sender hash tx = Ok p"
  shows "\<exists>sndr. sender (LondonSigner 1) tx = Inr sndr \<and>
           p = \<lparr> ChainId = uint32_of_uint64 (big_Uint64 (tx_ChainId tx)),
                   To = (case tx_To tx of None \<Rightarrow> [] | Some a \<Rightarrow> Address_Bytes a),
                   Gas = tx_Gas tx,
                   GasPrice = big_Uint64 (tx_GasPrice tx),
                   MaxFee = big_Uint64 (tx_GasFeeCap tx),
                   PriorityFee = big_Uint64 (tx_GasTipCap tx),
                   Hash = hash tx,
                   Input = tx_Data tx,
                   Nonce = tx_Nonce tx,
                   Value = big_Bytes (tx_Value tx),
                   From = Address_Bytes sndr,
                   Type = ucast (tx_Type tx),
                   V = big_Uint64 (fst (tx_RawSignatureValues tx)),
                   R = big_Bytes (fst (snd (tx_RawSignatureValues tx))),
                   S = big_Bytes (snd (snd (tx_RawSignatureValues tx))) \<rparr>"
  using assms by (auto simp: TxToProto_cases split: sum.splits)

lemma recipient_of_encoded:
  assumes "TxToProto sender hash tx = Ok p"
  shows "(if length (To p) > 0 then slice_to_Address (To p) else Ok zero_address)
            = Ok (case tx_To tx of None \<Rightarrow> zero_address | Some a \<Rightarrow> a)"
proof -
  from TxToProto_Ok_fields [OF assms]
  have "To p = (case tx_To tx of None \<Rightarrow> [] | Some a \<Rightarrow> Address_Bytes a)" by auto
  then show ?thesis
    by (simp add: slice_to_Address_Bytes Address_Bytes_nonempty split: option.splits)
qed

lemma recipient_conversion_ok:
  assumes "length (To proto) = 0 \<or> 20 \<le> length (To proto)"
  shows "\<exists>a. (if length (To proto) > 0 then slice_to_Address (To proto) else Ok zero_address)
              = Ok a"
  using assms by (auto simp: slice_to_Address_def)

lemma ProtoToTx_empty_To:
  assumes "To proto = []"
  shows "ProtoToTx proto = Ok (Some tx) \<Longrightarrow> tx_To tx = Some zero_address"
  using assms by (auto simp: ProtoToTx_def split: if_splits)

lemma ProtoToTx_TxToProto_To:
  assumes "TxToProto sender hash tx = Ok p"
  shows "\<exists>tx'. ProtoToTx p = Ok (Some tx') \<and>
           tx_To tx' = (case tx_To tx of None \<Rightarrow> Some zero_address | Some a \<Rightarrow> Some a)"
proof -
  from TxToProto_Ok_fields [OF assms] have ty: "Type p = ucast (tx_Type tx)" by auto
  show ?thesis
    unfolding ProtoToTx_def recipient_of_encoded [OF assms]
    by (cases tx) (simp_all add: ty split: option.splits)
qed

text \<open>
  C5.  Encoding fails exactly when sender recovery (under the signer that \<open>TxToProto\<close>
  constructs) fails, and then with the error that recovery returned; it succeeds exactly
  when recovery succeeds; it never panics.  No other condition on the transaction makes
  it fail.
\<close>

theorem TxToProto_fails_iff_recovery_fails:
  "(TxToProto sender hash tx = Err e) = (sender (NewLondonSigner Big1) tx = Inl e)
   \<and> (\<exists>p. TxToProto sender hash tx = Ok p) = (\<exists>a. sender (NewLondonSigner Big1) tx = Inr a)
   \<and> (\<forall>q. TxToProto sender hash tx \<noteq> Panic q)"
  by (cases "sender (LondonSigner 1) tx")
     (simp_all add: TxToProto_cases NewLondonSigner_def Big1_def)

text \<open>
  C6 (as amended).  For a wire transaction whose recipient field is empty or holds at least
  20 bytes, \<open>ProtoToTx\<close> dispatches on the type tag: tag 0 gives a legacy transaction,
  tag 1 an access-list transaction, tag 2 a dynamic-fee transaction, and every other tag
  gives the nil result.
\<close>

theorem ProtoToTx_dispatch:
  assumes "length (To proto) = 0 \<or> 20 \<le> length (To proto)"
  shows "(Type proto = 0 \<longrightarrow> (\<exists>t. ProtoToTx proto = Ok (Some (NewLegacyTx t))))
       \<and> (Type proto = 1 \<longrightarrow> (\<exists>t. ProtoToTx proto = Ok (Some (NewAccessListTx t))))
       \<and> (Type proto = 2 \<longrightarrow> (\<exists>t. ProtoToTx proto = Ok (Some (NewDynamicFeeTx t))))
       \<and> (Type proto \<noteq> 0 \<and> Type proto \<noteq> 1 \<and> Type proto \<noteq> 2 \<longrightarrow> ProtoToTx proto = Ok None)"
proof -
  from recipient_conversion_ok [OF assms] obtain a where
    "(if length (To proto) > 0 then slice_to_Address (To proto) else Ok zero_address) = Ok a" ..
  then show ?thesis
    by (simp add: ProtoToTx_def)
qed

text \<open>Witness for C6: tag 7 with an empty recipient field decodes to nil.\<close>

theorem ProtoToTx_dispatch_witness:
  "length (To (unknown_tag_proto [])) = 0 \<and> ProtoToTx (unknown_tag_proto []) = Ok None"
  using ProtoToTx_dispatch [of "unknown_tag_proto []"]
  by (simp add: unknown_tag_proto_def)

text \<open>
  Counterexample to C6 as stated: tag 7 with a one-byte recipient field.  The conversion
  of the recipient slice runs before the \<open>switch\<close> and panics; the result is not nil.
\<close>

theorem ProtoToTx_unknown_tag_short_recipient_panics:
  "Type (unknown_tag_proto [1]) = 7
   \<and> ProtoToTx (unknown_tag_proto [1]) = Panic SliceShorterThanArray"
  by (simp add: ProtoToTx_def slice_to_Address_def unknown_tag_proto_def)

text \<open>
  C8 (as amended).  When the recipient field of a wire transaction is empty and its type
  tag is 0, 1 or 2, \<open>ProtoToTx\<close> returns a transaction addressed to the zero address,
  never one without recipient; with an empty recipient field and any other tag it returns
  nil.  So a transaction without recipient, which \<open>TxToProto\<close> encodes with an empty
  recipient field, decodes to one addressed to the zero address, and the recipient of an
  encoded transaction is reproduced by decoding exactly when it is present.
\<close>

theorem empty_recipient_decodes_to_zero_address:
  "(To proto = [] \<longrightarrow>
      (if Type proto = 0 \<or> Type proto = 1 \<or> Type proto = 2
       then \<exists>t. ProtoToTx proto = Ok (Some t) \<and> tx_To t = Some zero_address
       else ProtoToTx proto = Ok None))
   \<and> (TxToProto sender hash tx = Ok p \<longrightarrow>
        (tx_To tx = None \<longrightarrow> To p = [])
        \<and> (\<exists>tx'. ProtoToTx p = Ok (Some tx')
              \<and> (tx_To tx = None \<longrightarrow> tx_To tx' = Some zero_address)
              \<and> (tx_To tx' = tx_To tx) = (tx_To tx \<noteq> None)))"
proof (intro conjI impI)
  assume e: "To proto = []"
  show "if Type proto = 0 \<or> Type proto = 1 \<or> Type proto = 2
       then \<exists>t. ProtoToTx proto = Ok (Some t) \<and> tx_To t = Some zero_address
       else ProtoToTx proto = Ok None"
    using e by (auto simp: ProtoToTx_def)
next
  assume "TxToProto sender hash tx = Ok p" "tx_To tx = None"
  then show "To p = []"
    by (auto simp: TxToProto_cases split: sum.splits)
next
  assume enc: "TxToProto sender hash tx = Ok p"
  from ProtoToTx_TxToProto_To [OF enc] obtain tx' where
    "ProtoToTx p = Ok (Some tx')"
    "tx_To tx' = (case tx_To tx of None \<Rightarrow> Some zero_address | Some a \<Rightarrow> Some a)"
    by blast
  then show "\<exists>tx'. ProtoToTx p = Ok (Some tx')
              \<and> (tx_To tx = None \<longrightarrow> tx_To tx' = Some zero_address)
              \<and> (tx_To tx' = tx_To tx) = (tx_To tx \<noteq> None)"
    by (cases "tx_To tx") auto
qed

text \<open>
  Witness for C8: a legacy transaction without recipient is encoded with an empty recipient
  field and decodes to a transaction addressed to the zero address.
\<close>

theorem empty_recipient_decodes_to_zero_address_witness:
  "tx_To creation_tx = None
   \<and> (\<exists>p tx'. TxToProto (recovers_to addr2) no_hash creation_tx = Ok p \<and> To p = []
         \<and> ProtoToTx p = Ok (Some tx') \<and> tx_To tx' = Some zero_address
         \<and> tx_To tx' \<noteq> tx_To creation_tx)"
proof -
  have none: "tx_To creation_tx = None"
    by (simp add: creation_tx_def)
  obtain p where enc: "TxToProto (recovers_to addr2) no_hash creation_tx = Ok p"
    by (simp add: TxToProto_cases recovers_to_def)
  from empty_recipient_decodes_to_zero_address
         [of p "recovers_to addr2" no_hash creation_tx p] enc none
  obtain tx' where "To p = []" "ProtoToTx p = Ok (Some tx')" "tx_To tx' = Some zero_address"
    by blast
  with enc none show ?thesis by auto
qed

text \<open>
  Counterexample to C8 as stated: a wire transaction with an empty recipient field and
  type tag 3.  \<open>ProtoToTx\<close> returns nil, not a transaction addressed to the zero address.
\<close>

theorem empty_recipient_unknown_tag_decodes_to_nil:
  "To tag3_proto = [] \<and> Type tag3_proto = 3 \<and> ProtoToTx tag3_proto = Ok None"
  by (simp add: ProtoToTx_def tag3_proto_def)

text \<open>
  C2 (as amended).  For a transaction of one of the three types whose encoding succeeds,
  whose value, \<open>r\<close> and \<open>s\<close> are not negative, whose \<open>v\<close>, gas price, fee cap and tip cap
  lie in \<open>[0, 2^63)\<close>, and whose chain id (for the two typed variants) lies in
  \<open>[0, 2^32)\<close>: decoding the encoding gives a transaction of the same type with the same
  nonce, gas limit, value, input, signature triple, chain id, gas price, fee cap and tip
  cap; its recipient is the original one when that is present and the zero address when
  it is absent.
\<close>

theorem ProtoToTx_TxToProto_roundtrip:
  assumes enc: "TxToProto sender hash tx = Ok p"
    and val: "0 \<le> tx_Value tx"
    and sg: "tx_RawSignatureValues tx = (v, r, s)" "0 \<le> v" "v < 2 ^ 63" "0 \<le> r" "0 \<le> s"
    and gp: "0 \<le> tx_GasPrice tx" "tx_GasPrice tx < 2 ^ 63"
    and tip: "0 \<le> tx_GasTipCap tx" "tx_GasTipCap tx < 2 ^ 63"
    and cid: "tx_Type tx \<noteq> 0 \<longrightarrow> 0 \<le> tx_ChainId tx \<and> tx_ChainId tx < 2 ^ 32"
  shows "\<exists>tx'. ProtoToTx p = Ok (Some tx')
           \<and> tx_Type tx' = tx_Type tx
           \<and> tx_Nonce tx' = tx_Nonce tx
           \<and> tx_Gas tx' = tx_Gas tx
           \<and> tx_Value tx' = tx_Value tx
           \<and> tx_To tx' = (case tx_To tx of None \<Rightarrow> Some zero_address | Some a \<Rightarrow> Some a)
           \<and> tx_Data tx' = tx_Data tx
           \<and> tx_RawSignatureValues tx' = tx_RawSignatureValues tx
           \<and> tx_ChainId tx' = tx_ChainId tx
           \<and> tx_GasPrice tx' = tx_GasPrice tx
           \<and> tx_GasFeeCap tx' = tx_GasFeeCap tx
           \<and> tx_GasTipCap tx' = tx_GasTipCap tx"
proof -
  from TxToProto_Ok_fields [OF enc] obtain sndr where
    p: "p = \<lparr> ChainId = uint32_of_uint64 (big_Uint64 (tx_ChainId tx)),
                   To = (case tx_To tx of None \<Rightarrow> [] | Some a \<Rightarrow> Address_Bytes a),
                   Gas = tx_Gas tx,
                   GasPrice = big_Uint64 (tx_GasPrice tx),
                   MaxFee = big_Uint64 (tx_GasFeeCap tx),
                   PriorityFee = big_Uint64 (tx_GasTipCap tx),
                   Hash = hash tx,
                   Input = tx_Data tx,
                   Nonce = tx_Nonce tx,
                   Value = big_Bytes (tx_Value tx),
                   From = Address_Bytes sndr,
                   Type = ucast (tx_Type tx),
                   V = big_Uint64 (fst (tx_RawSignatureValues tx)),
                   R = big_Bytes (fst (snd (tx_RawSignatureValues tx))),
                   S = big_Bytes (snd (snd (tx_RawSignatureValues tx))) \<rparr>"
    by blast
  note conv = recipient_of_encoded [OF enc]
  note rt = big_SetBytes_Bytes big_NewInt_Uint64 big_NewInt_uint32
  show ?thesis
  proof (cases tx)
    case (NewLegacyTx t)
    with val sg gp show ?thesis
      unfolding ProtoToTx_def conv by (simp add: p rt split: option.splits)
  next
    case (NewAccessListTx t)
    with val sg gp cid show ?thesis
      unfolding ProtoToTx_def conv by (simp add: p rt split: option.splits)
  next
    case (NewDynamicFeeTx t)
    with val sg gp tip cid show ?thesis
      unfolding ProtoToTx_def conv by (simp add: p rt split: option.splits)
  qed
qed

text \<open>
  Witness for C2: the legacy transfer with nonce 5, gas 21000, gas price \<open>10^9\<close> and value
  \<open>10^18\<close> comes back from decoding its encoding with these fields and its recipient.
\<close>

theorem ProtoToTx_TxToProto_roundtrip_witness:
  "\<exists>p tx'. TxToProto (recovers_to addr2) no_hash transfer_tx = Ok p
      \<and> ProtoToTx p = Ok (Some tx')
      \<and> tx_Nonce tx' = 5 \<and> tx_Gas tx' = 21000 \<and> tx_GasPrice tx' = 1000000000
      \<and> tx_Value tx' = 1000000000000000000 \<and> tx_To tx' = Some addr1
      \<and> tx_RawSignatureValues tx' = (37, 11, 12)"
proof -
  obtain p where enc: "TxToProto (recovers_to addr2) no_hash transfer_tx = Ok p"
    by (simp add: TxToProto_cases recovers_to_def)
  have "\<exists>tx'. ProtoToTx p = Ok (Some tx')
           \<and> tx_Type tx' = tx_Type transfer_tx
           \<and> tx_Nonce tx' = tx_Nonce transfer_tx
           \<and> tx_Gas tx' = tx_Gas transfer_tx
           \<and> tx_Value tx' = tx_Value transfer_tx
           \<and> tx_To tx' = (case tx_To transfer_tx of None \<Rightarrow> Some zero_address
                            | Some a \<Rightarrow> Some a)
           \<and> tx_Data tx' = tx_Data transfer_tx
           \<and> tx_RawSignatureValues tx' = tx_RawSignatureValues transfer_tx
           \<and> tx_ChainId tx' = tx_ChainId transfer_tx
           \<and> tx_GasPrice tx' = tx_GasPrice transfer_tx
           \<and> tx_GasFeeCap tx' = tx_GasFeeCap transfer_tx
           \<and> tx_GasTipCap tx' = tx_GasTipCap transfer_tx"
    by (rule ProtoToTx_TxToProto_roundtrip [OF enc, of 37 11 12])
       (simp_all add: transfer_tx_def)
  then obtain tx' where "ProtoToTx p = Ok (Some tx')"
    "tx_Nonce tx' = tx_Nonce transfer_tx" "tx_Gas tx' = tx_Gas transfer_tx"
    "tx_Value tx' = tx_Value transfer_tx"
    "tx_To tx' = (case tx_To transfer_tx of None \<Rightarrow> Some zero_address | Some a \<Rightarrow> Some a)"
    "tx_RawSignatureValues tx' = tx_RawSignatureValues transfer_tx"
    "tx_GasPrice tx' = tx_GasPrice transfer_tx"
    by blast
  with enc show ?thesis
    by (intro exI [of _ p] exI [of _ tx']) (simp add: transfer_tx_def)
qed

text \<open>
  Counterexample to C2 as stated: a dynamic-fee transaction without recipient is encoded
  successfully, and decoding the encoding gives the same transaction except that its
  recipient is the zero address.
\<close>

theorem roundtrip_changes_absent_recipient:
  "dyn_To creation_dyn = None
   \<and> TxToProto (recovers_to addr2) no_hash (NewDynamicFeeTx creation_dyn) = Ok creation_dyn_proto
   \<and> ProtoToTx creation_dyn_proto
       = Ok (Some (NewDynamicFeeTx (creation_dyn\<lparr>dyn_To := Some zero_address\<rparr>)))"
  by (simp add: TxToProto_cases ProtoToTx_def recovers_to_def no_hash_def creation_dyn_def
      creation_dyn_proto_def addr2_def Address_Bytes_replicate big_Uint64_def big_Bytes_def
      be_bytes.simps uint32_of_uint64_def big_NewInt_def int64_of_uint64_def
      int64_of_uint32_def big_SetBytes_def)

text \<open>
  The numeric ranges of the amended C2 are needed as well.  A dynamic-fee transaction with
  a recipient, chain id \<open>2^32 + 1\<close>, tip cap \<open>2^63\<close>, fee cap \<open>2^64 + 30\<close>,
  \<open>v = 2^63 + 1\<close> and negative value, \<open>r\<close> and \<open>s\<close> is encoded, and decoding gives
  chain id 1, tip cap \<open>- 2^63\<close>, fee cap 30, \<open>v = - (2^63 - 1)\<close> and the magnitudes of
  value, \<open>r\<close> and \<open>s\<close>.
\<close>

lemma roundtrip_outside_wire_widths:
  "\<exists>p. TxToProto (recovers_to addr2) no_hash (NewDynamicFeeTx oversized_dyn) = Ok p
     \<and> ProtoToTx p = Ok (Some (NewDynamicFeeTx
           (oversized_dyn\<lparr>dyn_ChainID := 1, dyn_GasTipCap := - 9223372036854775808,
              dyn_GasFeeCap := 30, dyn_Value := 9, dyn_V := - 9223372036854775807,
              dyn_R := 31, dyn_S := 32\<rparr>)))"
  by (simp add: TxToProto_cases ProtoToTx_def recovers_to_def no_hash_def oversized_dyn_def
      addr1_def addr2_def Address_Bytes_replicate slice_to_Address_def
      big_Uint64_def big_Bytes_def
      be_bytes.simps uint32_of_uint64_def big_NewInt_def int64_of_uint64_def
      int64_of_uint32_def big_SetBytes_def)

text \<open>
  C9 (as amended).  \<open>TxToProto\<close> consults sender recovery only under the London signer for
  chain id 1, whatever the transaction: two recovery functions that agree for that signer
  on the transaction give the same encoding result.  Encoding succeeds exactly when that
  recovery succeeds, and the encoded sender is the recovered address.
\<close>

theorem TxToProto_recovers_under_London_chain_1:
  "(sender (LondonSigner 1) tx = sender' (LondonSigner 1) tx \<longrightarrow>
      TxToProto sender hash tx = TxToProto sender' hash tx)
   \<and> (\<exists>p. TxToProto sender hash tx = Ok p) = (\<exists>a. sender (LondonSigner 1) tx = Inr a)
   \<and> (\<forall>p a. TxToProto sender hash tx = Ok p \<and> sender (LondonSigner 1) tx = Inr a \<longrightarrow>
         From p = Address_Bytes a)"
  by (cases "sender (LondonSigner 1) tx") (auto simp: TxToProto_cases)

text \<open>
  Witness for C9: a recovery that always succeeds and one that checks the chain id agree
  under the chain-id-1 signer on an access-list transaction of chain id 1, and give the
  same encoding.
\<close>

theorem TxToProto_recovers_under_London_chain_1_witness:
  "recovers_to addr2 (LondonSigner 1) (access_list_tx 1)
     = chain_id_checking_sender addr2 (LondonSigner 1) (access_list_tx 1)
   \<and> TxToProto (recovers_to addr2) no_hash (access_list_tx 1)
     = TxToProto (chain_id_checking_sender addr2) no_hash (access_list_tx 1)"
proof -
  have agree: "recovers_to addr2 (LondonSigner 1) (access_list_tx 1)
     = chain_id_checking_sender addr2 (LondonSigner 1) (access_list_tx 1)"
    by (simp add: recovers_to_def chain_id_checking_sender_def access_list_tx_def)
  with TxToProto_recovers_under_London_chain_1
         [of "recovers_to addr2" "access_list_tx 1" "chain_id_checking_sender addr2" no_hash]
  show ?thesis by blast
qed

text \<open>
  Counterexample to C9 as stated: two access-list transactions that differ only in their
  declared chain id, under a recovery that rejects a chain id other than the signer's.
  The one declaring chain id 1 is encoded; the one declaring chain id 5 is not.
\<close>

theorem declared_chain_id_decides_encoding:
  "TxToProto (chain_id_checking_sender addr2) no_hash (access_list_tx 1) = Ok access_list_proto
   \<and> TxToProto (chain_id_checking_sender addr2) no_hash (access_list_tx 5)
       = Err (Error ''invalid chain id for signer'')"
  by (simp add: TxToProto_cases chain_id_checking_sender_def no_hash_def access_list_tx_def
      access_list_proto_def addr1_def addr2_def Address_Bytes_replicate big_Uint64_def
      big_Bytes_def be_bytes.simps uint32_of_uint64_def)

section \<open>Connecting\<close>

lemma Connect_dialed:
  assumes "DialContext (target c) = Inr cn"
  shows "Connect DialContext NewAPIClient c =
     (let stub = NewAPIClient cn;
          ctx = AppendToOutgoingContext Background ''x-api-key'' (key c);
          c1 = c\<lparr>conn := Some cn, client := Some stub\<rparr>;
          c2 = c1\<lparr>txStream := fst (api_SendTransaction stub ctx)\<rparr>;
          c3 = c2\<lparr>rawTxStream := fst (api_SendRawTransaction stub ctx)\<rparr>;
          c4 = c3\<lparr>txSeqStream := fst (api_SendTransactionSequence stub ctx)\<rparr>;
          c5 = c4\<lparr>rawTxSeqStream := fst (api_SendRawTransactionSequence stub ctx)\<rparr>
      in if snd (api_SendTransaction stub ctx) \<noteq> None
         then (snd (api_SendTransaction stub ctx), c2)
         else if snd (api_SendRawTransaction stub ctx) \<noteq> None
         then (snd (api_SendRawTransaction stub ctx), c3)
         else if snd (api_SendTransactionSequence stub ctx) \<noteq> None
         then (snd (api_SendTransactionSequence stub ctx), c4)
         else if snd (api_SendRawTransactionSequence stub ctx) \<noteq> None
         then (snd (api_SendRawTransactionSequence stub ctx), c5)
         else (None, c5))"
  using assms by (simp add: Connect_def Let_def split_beta)


text \<open>What \<open>Connect\<close> returns after a successful dial, by the first open that fails.\<close>

lemma Connect_outcome:
  assumes dial: "DialContext (target c) = Inr cn"
    and o1: "api_SendTransaction (NewAPIClient cn) ctx = (s1, e1)"
    and o2: "api_SendRawTransaction (NewAPIClient cn) ctx = (s2, e2)"
    and o3: "api_SendTransactionSequence (NewAPIClient cn) ctx = (s3, e3)"
    and o4: "api_SendRawTransactionSequence (NewAPIClient cn) ctx = (s4, e4)"
    and ctx: "ctx = AppendToOutgoingContext Background ''x-api-key'' (key c)"
    and c1: "c1 = c\<lparr>conn := Some cn, client := Some (NewAPIClient cn)\<rparr>"
  shows "Connect DialContext NewAPIClient c =
      (if e1 \<noteq> None then (e1, c1\<lparr>txStream := s1\<rparr>)
       else if e2 \<noteq> None then (e2, c1\<lparr>txStream := s1, rawTxStream := s2\<rparr>)
       else if e3 \<noteq> None
         then (e3, c1\<lparr>txStream := s1, rawTxStream := s2, txSeqStream := s3\<rparr>)
       else if e4 \<noteq> None
         then (e4, c1\<lparr>txStream := s1, rawTxStream := s2, txSeqStream := s3,
                          rawTxSeqStream := s4\<rparr>)
       else (None, c1\<lparr>txStream := s1, rawTxStream := s2, txSeqStream := s3,
                          rawTxSeqStream := s4\<rparr>))"
    unfolding Connect_dialed [where DialContext = DialContext and c = c and cn = cn
        and NewAPIClient = NewAPIClient, OF dial] Let_def ctx [symmetric] o1 o2 o3 o4 c1 fst_conv snd_conv
    by (rule refl)


text \<open>
  C1 (as amended).  After a successful dial, \<open>Connect\<close> returns an error exactly when one
  of the four streams fails to open, and the error is that of the first open that fails.
  It releases nothing: the connection, the stub and every stream opened before the failing
  one stay on the client, the failing open's own stream value is stored in its field, and
  the fields of the later streams are left as they were.
\<close>

theorem Connect_stream_failure:
  assumes dial: "DialContext (target c) = Inr cn"
    and o1: "api_SendTransaction (NewAPIClient cn) ctx = (s1, e1)"
    and o2: "api_SendRawTransaction (NewAPIClient cn) ctx = (s2, e2)"
    and o3: "api_SendTransactionSequence (NewAPIClient cn) ctx = (s3, e3)"
    and o4: "api_SendRawTransactionSequence (NewAPIClient cn) ctx = (s4, e4)"
    and ctx: "ctx = AppendToOutgoingContext Background ''x-api-key'' (key c)"
    and c1: "c1 = c\<lparr>conn := Some cn, client := Some (NewAPIClient cn)\<rparr>"
  shows "(e1 \<noteq> None \<or> e2 \<noteq> None \<or> e3 \<noteq> None \<or> e4 \<noteq> None) =
           (fst (Connect DialContext NewAPIClient c) \<noteq> None)
       \<and> (e1 \<noteq> None \<longrightarrow>
            Connect DialContext NewAPIClient c = (e1, c1\<lparr>txStream := s1\<rparr>))
       \<and> (e1 = None \<and> e2 \<noteq> None \<longrightarrow>
            Connect DialContext NewAPIClient c
              = (e2, c1\<lparr>txStream := s1, rawTxStream := s2\<rparr>))
       \<and> (e1 = None \<and> e2 = None \<and> e3 \<noteq> None \<longrightarrow>
            Connect DialContext NewAPIClient c
              = (e3, c1\<lparr>txStream := s1, rawTxStream := s2, txSeqStream := s3\<rparr>))
       \<and> (e1 = None \<and> e2 = None \<and> e3 = None \<and> e4 \<noteq> None \<longrightarrow>
            Connect DialContext NewAPIClient c
              = (e4, c1\<lparr>txStream := s1, rawTxStream := s2, txSeqStream := s3,
                          rawTxSeqStream := s4\<rparr>))"
proof -
  note eq = Connect_outcome [where DialContext = DialContext and c = c and cn = cn
      and NewAPIClient = NewAPIClient, OF dial o1 o2 o3 o4 ctx c1]
  have a: "(e1 \<noteq> None \<or> e2 \<noteq> None \<or> e3 \<noteq> None \<or> e4 \<noteq> None) =
           (fst (Connect DialContext NewAPIClient c) \<noteq> None)"
    unfolding eq by (cases e1; cases e2; cases e3; cases e4) simp_all
  have b: "e1 \<noteq> None \<Longrightarrow>
            Connect DialContext NewAPIClient c = (e1, c1\<lparr>txStream := s1\<rparr>)"
    unfolding eq by simp
  have c: "e1 = None \<Longrightarrow> e2 \<noteq> None \<Longrightarrow>
            Connect DialContext NewAPIClient c
              = (e2, c1\<lparr>txStream := s1, rawTxStream := s2\<rparr>)"
    unfolding eq by simp
  have d: "e1 = None \<Longrightarrow> e2 = None \<Longrightarrow> e3 \<noteq> None \<Longrightarrow>
            Connect DialContext NewAPIClient c
              = (e3, c1\<lparr>txStream := s1, rawTxStream := s2, txSeqStream := s3\<rparr>)"
    unfolding eq by simp
  have e: "e1 = None \<Longrightarrow> e2 = None \<Longrightarrow> e3 = None \<Longrightarrow> e4 \<noteq> None \<Longrightarrow>
            Connect DialContext NewAPIClient c
              = (e4, c1\<lparr>txStream := s1, rawTxStream := s2, txSeqStream := s3,
                          rawTxSeqStream := s4\<rparr>)"
    unfolding eq by simp
  from a b c d e show ?thesis by blast
qed

text \<open>
  Witness for C1: the third open fails after a successful dial; \<open>Connect\<close> returns that
  error and the first two streams are on the client.
\<close>

theorem Connect_stream_failure_witness:
  "Connect dial_ok (\<lambda>cn. third_open_fails) (NewClient ''host'' ''k'')
     = (Some (Error ''stream refused''),
        (NewClient ''host'' ''k'')
          \<lparr>conn := Some (ClientConn 0), client := Some third_open_fails,
           txStream := Some answering_stream, rawTxStream := Some answering_stream,
           txSeqStream := None\<rparr>)"
proof -
  have dial: "dial_ok (target (NewClient ''host'' ''k'')) = Inr (ClientConn 0)"
    by (simp add: dial_ok_def)
  have o1: "api_SendTransaction ((\<lambda>cn. third_open_fails) (ClientConn 0))
              (AppendToOutgoingContext Background ''x-api-key'' (key (NewClient ''host'' ''k'')))
            = (Some answering_stream, None)"
    by (simp add: third_open_fails_def)
  have o2: "api_SendRawTransaction ((\<lambda>cn. third_open_fails) (ClientConn 0))
              (AppendToOutgoingContext Background ''x-api-key'' (key (NewClient ''host'' ''k'')))
            = (Some answering_stream, None)"
    by (simp add: third_open_fails_def)
  have o3: "api_SendTransactionSequence ((\<lambda>cn. third_open_fails) (ClientConn 0))
              (AppendToOutgoingContext Background ''x-api-key'' (key (NewClient ''host'' ''k'')))
            = (None, Some (Error ''stream refused''))"
    by (simp add: third_open_fails_def)
  have o4: "api_SendRawTransactionSequence ((\<lambda>cn. third_open_fails) (ClientConn 0))
              (AppendToOutgoingContext Background ''x-api-key'' (key (NewClient ''host'' ''k'')))
            = (Some (sequence_stream None []), None)"
    by (simp add: third_open_fails_def)
  note th = Connect_stream_failure [where DialContext = dial_ok
      and c = "NewClient ''host'' ''k''" and cn = "ClientConn 0"
      and NewAPIClient = "\<lambda>cn. third_open_fails", OF dial o1 o2 o3 o4 refl refl]
  from th have "Connect dial_ok (\<lambda>cn. third_open_fails) (NewClient ''host'' ''k'')
     = (Some (Error ''stream refused''),
        (NewClient ''host'' ''k'')
          \<lparr>conn := Some (ClientConn 0), client := Some ((\<lambda>cn. third_open_fails) (ClientConn 0))\<rparr>
          \<lparr>txStream := Some answering_stream, rawTxStream := Some answering_stream,
           txSeqStream := None\<rparr>)"
    by blast
  then show ?thesis by simp
qed

text \<open>
  Counterexample to C1 as stated: the third stream fails to open.  \<open>Connect\<close> returns the
  error, yet the transaction and raw-transaction streams stay on the client, and a raw
  transaction sent on that client is answered.
\<close>

theorem failed_Connect_leaves_streams_usable:
  "fst (Connect dial_ok (\<lambda>cn. third_open_fails) (NewClient ''host'' ''k''))
     = Some (Error ''stream refused'')
   \<and> txStream (snd (Connect dial_ok (\<lambda>cn. third_open_fails) (NewClient ''host'' ''k'')))
     = Some answering_stream
   \<and> rawTxStream (snd (Connect dial_ok (\<lambda>cn. third_open_fails) (NewClient ''host'' ''k'')))
     = Some answering_stream
   \<and> SendRawTransaction SelectFirst
       (snd (Connect dial_ok (\<lambda>cn. third_open_fails) (NewClient ''host'' ''k''))) [1]
     = Ok (''0xaa'', 7)"
proof -
  have eq: "Connect dial_ok (\<lambda>cn. third_open_fails) (NewClient ''host'' ''k'')
     = (Some (Error ''stream refused''),
        (NewClient ''host'' ''k'')
          \<lparr>conn := Some (ClientConn 0), client := Some third_open_fails,
           txStream := Some answering_stream, rawTxStream := Some answering_stream,
           txSeqStream := None\<rparr>)"
    by (simp add: Connect_def dial_ok_def third_open_fails_def Let_def)
  show ?thesis
    unfolding eq
    by (simp add: SendRawTransaction_def correlate_def answering_stream_def)
qed

section \<open>Sending\<close>

text \<open>
  Runs of the two execution units: the caller may poll \<open>errc\<close> before the write has
  failed, and then returns what the read gives while the write unit stays blocked offering
  its error; or the write fails first and the \<open>select\<close> takes the error.
\<close>

lemma select_first_run:
  "(correlate_step (Some e) received)\<^sup>*\<^sup>* (AtSelect, Writing) (Returned received, Offering e)"
proof -
  have "correlate_step (Some e) received (AtSelect, Writing) (AtRecv, Writing)"
    by (rule select_default) simp
  moreover have "correlate_step (Some e) received (AtRecv, Writing) (Returned received, Writing)"
    by (rule recv_returns)
  moreover have "correlate_step (Some e) received (Returned received, Writing)
                   (Returned received, Offering e)"
    by (rule write_failed) simp
  ultimately show ?thesis by (meson rtranclp.rtrancl_into_rtrancl rtranclp.rtrancl_refl)
qed

lemma write_first_run:
  "(correlate_step (Some e) received)\<^sup>*\<^sup>* (AtSelect, Writing) (Returned (Err e), Finished)"
proof -
  have "correlate_step (Some e) received (AtSelect, Writing) (AtSelect, Offering e)"
    by (rule write_failed) simp
  moreover have "correlate_step (Some e) received (AtSelect, Offering e)
                   (Returned (Err e), Finished)"
    by (rule select_errc)
  ultimately show ?thesis by (meson rtranclp.rtrancl_into_rtrancl rtranclp.rtrancl_refl)
qed

lemma write_ok_run:
  "(correlate_step None received)\<^sup>*\<^sup>* (AtSelect, Writing) (Returned received, Finished)"
proof -
  have "correlate_step None received (AtSelect, Writing) (AtSelect, Finished)"
    by (rule write_ok) simp
  moreover have "correlate_step None received (AtSelect, Finished) (AtRecv, Finished)"
    by (rule select_default) simp
  moreover have "correlate_step None received (AtRecv, Finished) (Returned received, Finished)"
    by (rule recv_returns)
  ultimately show ?thesis by (meson rtranclp.rtrancl_into_rtrancl rtranclp.rtrancl_refl)
qed

lemma correlate_step_invariant:
  assumes "(correlate_step sent received)\<^sup>*\<^sup>* (AtSelect, Writing) (m, u)"
  shows "(\<forall>e. u = Offering e \<longrightarrow> sent = Some e)
       \<and> (\<forall>r. m = Returned r \<longrightarrow> r = received \<or> (\<exists>e. sent = Some e \<and> r = Err e))"
  using assms
proof (induction "(m, u)" arbitrary: m u rule: rtranclp_induct)
  case base
  then show ?case by simp
next
  case (step y)
  obtain m0 u0 where y: "y = (m0, u0)" by (cases y)
  from step(3) [OF y] have inv:
    "\<forall>e. u0 = Offering e \<longrightarrow> sent = Some e"
    "\<forall>r. m0 = Returned r \<longrightarrow> r = received \<or> (\<exists>e. sent = Some e \<and> r = Err e)"
    by blast+
  from step(2) [unfolded y] inv show ?case
    by (cases rule: correlate_step.cases) auto
qed

text \<open>
  The results over all orders of the steps are exactly the results of \<open>correlate\<close> in
  its two interleavings.
\<close>

lemma correlate_covers_interleavings:
  "(\<exists>u. (correlate_step sent received)\<^sup>*\<^sup>* (AtSelect, Writing) (Returned r, u))
   = (r = correlate WriteFirst sent received \<or> r = correlate SelectFirst sent received)"
proof
  assume "\<exists>u. (correlate_step sent received)\<^sup>*\<^sup>* (AtSelect, Writing) (Returned r, u)"
  then obtain u where "(correlate_step sent received)\<^sup>*\<^sup>* (AtSelect, Writing) (Returned r, u)" ..
  from correlate_step_invariant [OF this]
  have "r = received \<or> (\<exists>e. sent = Some e \<and> r = Err e)" by blast
  then show "r = correlate WriteFirst sent received \<or> r = correlate SelectFirst sent received"
    by (cases sent) (auto simp: correlate_def)
next
  assume r: "r = correlate WriteFirst sent received \<or> r = correlate SelectFirst sent received"
  show "\<exists>u. (correlate_step sent received)\<^sup>*\<^sup>* (AtSelect, Writing) (Returned r, u)"
  proof (cases sent)
    case None
    with r have "r = received" by (auto simp: correlate_def)
    with None write_ok_run [of received] show ?thesis by blast
  next
    case (Some e)
    with r have "r = Err e \<or> r = received" by (auto simp: correlate_def)
    with Some write_first_run [of e received] select_first_run [of e received]
    show ?thesis by blast
  qed
qed

text \<open>
  C7.  The claim fails on the code in the interleaving where the caller polls \<open>errc\<close>
  before the write has failed.  A raw transaction is sent on a stream whose write fails
  with \<open>EOF\<close> and whose read fails with the status error: the call blocks in the read
  and returns the read's error, not the write's; the run ends with the caller returned
  and the write unit still offering its error.
\<close>

theorem send_error_lost_when_select_runs_first:
  "Send (broken_stream :: (RawTxMsg, TransactionResponse) stream) \<lparr> RawTx = [1] \<rparr>
     = Some (Error ''EOF'')
   \<and> SendRawTransaction SelectFirst (raw_client broken_stream) [1]
     = Err (Error ''rpc error: code = Unavailable'')
   \<and> (correlate_step (Some (Error ''EOF''))
        (Err (Error ''rpc error: code = Unavailable'') :: (string \<times> int64) result))\<^sup>*\<^sup>*
       (AtSelect, Writing)
       (Returned (Err (Error ''rpc error: code = Unavailable'')), Offering (Error ''EOF''))"
  by (simp add: SendRawTransaction_def raw_client_def broken_stream_def correlate_def
      select_first_run)

lemma correlate_sent_ok [simp]: "correlate il None received = received"
  by (cases il) (simp_all add: correlate_def)

lemma correlate_SelectFirst [simp]: "correlate SelectFirst sent received = received"
  by (simp add: correlate_def)

lemma correlate_WriteFirst_failed [simp]: "correlate WriteFirst (Some err) received = Err err"
  by (simp add: correlate_def)

lemma sequence_result_nonempty:
  "SequenceResponse res \<noteq> [] \<Longrightarrow>
   sequence_result (Inr res)
     = Ok (map resp_Hash (SequenceResponse res), resp_Timestamp (hd (SequenceResponse res)))"
  by (cases "SequenceResponse res") (simp_all add: sequence_result_def)

lemma sequence_result_empty:
  "SequenceResponse res = [] \<Longrightarrow> sequence_result (Inr res) = Panic IndexOutOfRange"
  by (simp add: sequence_result_def)

lemma protoSeq_loop_Ok:
  "protoSeq_loop sender hash txs = Ok protos \<Longrightarrow>
   map (TxToProto sender hash) txs = map Ok protos"
proof (induction txs arbitrary: protos)
  case Nil
  then show ?case by simp
next
  case (Cons tx txs)
  then show ?case
    by (auto split: result.splits)
qed

text \<open>
  C3 (as amended).  When the write of a sequence send succeeds, the read succeeds and the
  decoded response collection is not empty, the call returns one hash for each item of the
  response collection, in the order of that collection, paired with the timestamp of its
  first item; this holds in both interleavings.  The request of
  \<open>SendTransactionSequence\<close> carries the encodings of the input transactions in input
  order.  The number and order of the hashes are the response's: they are the \<open>N\<close> inputs'
  when the service answers with one item for each input, in input order.
\<close>

theorem sequence_send_returns_response_hashes:
  "(rawTxSeqStream c = Some st \<and> Send st \<lparr> RawTxs = rawTransactions \<rparr> = None
      \<and> Recv st = Inr res \<and> SequenceResponse res \<noteq> [] \<longrightarrow>
    SendRawTransactionSequence il c rawTransactions
      = Ok (map resp_Hash (SequenceResponse res), resp_Timestamp (hd (SequenceResponse res))))
   \<and> (protoSeq_loop sender hash transactions = Ok protoSeq
      \<and> txSeqStream c = Some st' \<and> Send st' \<lparr> Sequence = protoSeq \<rparr> = None
      \<and> Recv st' = Inr res' \<and> SequenceResponse res' \<noteq> [] \<longrightarrow>
    map (TxToProto sender hash) transactions = map Ok protoSeq
    \<and> SendTransactionSequence sender hash il c transactions
      = Ok (map resp_Hash (SequenceResponse res'),
            resp_Timestamp (hd (SequenceResponse res'))))"
  by (simp add: SendRawTransactionSequence_def SendTransactionSequence_def
      sequence_result_nonempty protoSeq_loop_Ok)

text \<open>
  Witness for C3: three raw transactions, a response of three items sharing the timestamp
  9; the call returns the three hashes in the response's order and 9.
\<close>

theorem sequence_send_returns_response_hashes_witness:
  "SendRawTransactionSequence WriteFirst
     (raw_seq_client (sequence_stream None
        [\<lparr> resp_Hash = ''0x01'', resp_Timestamp = 9 \<rparr>,
         \<lparr> resp_Hash = ''0x02'', resp_Timestamp = 9 \<rparr>,
         \<lparr> resp_Hash = ''0x03'', resp_Timestamp = 9 \<rparr>]))
     [[1], [2], [3]]
   = Ok ([''0x01'', ''0x02'', ''0x03''], 9)"
  using sequence_send_returns_response_hashes
    [where c = "raw_seq_client (sequence_stream None
        [\<lparr> resp_Hash = ''0x01'', resp_Timestamp = 9 \<rparr>,
         \<lparr> resp_Hash = ''0x02'', resp_Timestamp = 9 \<rparr>,
         \<lparr> resp_Hash = ''0x03'', resp_Timestamp = 9 \<rparr>])"
      and st = "sequence_stream None
        [\<lparr> resp_Hash = ''0x01'', resp_Timestamp = 9 \<rparr>,
         \<lparr> resp_Hash = ''0x02'', resp_Timestamp = 9 \<rparr>,
         \<lparr> resp_Hash = ''0x03'', resp_Timestamp = 9 \<rparr>]"
      and rawTransactions = "[[1], [2], [3]]"
      and res = "\<lparr> SequenceResponse =
        [\<lparr> resp_Hash = ''0x01'', resp_Timestamp = 9 \<rparr>,
         \<lparr> resp_Hash = ''0x02'', resp_Timestamp = 9 \<rparr>,
         \<lparr> resp_Hash = ''0x03'', resp_Timestamp = 9 \<rparr>] \<rparr>"
      and il = WriteFirst]
  by (simp add: raw_seq_client_def sequence_stream_def)

text \<open>
  Counterexample to C3 as stated: two raw transactions are sent and both the write and the
  read succeed.  With a response of one item the call returns one hash, not two; with a
  response of no items it does not return at all.
\<close>

theorem sequence_send_two_items_one_hash:
  "length [[1], [2 :: byte]] = 2
   \<and> SendRawTransactionSequence WriteFirst
       (raw_seq_client (sequence_stream None [\<lparr> resp_Hash = ''0x01'', resp_Timestamp = 9 \<rparr>]))
       [[1], [2]]
     = Ok ([''0x01''], 9)
   \<and> SendRawTransactionSequence WriteFirst (raw_seq_client (sequence_stream None []))
       [[1], [2]]
     = Panic IndexOutOfRange"
  by (simp add: SendRawTransactionSequence_def raw_seq_client_def sequence_stream_def
      sequence_result_def)

text \<open>
  C10.  Both sequence operations take the timestamp from index 0 of the response collection
  with no check that the collection has an item.  Whenever the read is reached (the caller
  polled first, or the write succeeded) and succeeds, the call returns the hashes and the
  timestamp of item 0 if the collection is not empty, and on an empty collection it stops
  with an index-out-of-range panic instead of returning an error.
\<close>

theorem sequence_timestamp_index_unguarded:
  "(rawTxSeqStream c = Some st \<and> Recv st = Inr res
      \<and> (il = SelectFirst \<or> Send st \<lparr> RawTxs = rawTransactions \<rparr> = None) \<longrightarrow>
    SendRawTransactionSequence il c rawTransactions
      = (if SequenceResponse res = [] then Panic IndexOutOfRange
         else Ok (map resp_Hash (SequenceResponse res),
                  resp_Timestamp (SequenceResponse res ! 0))))
   \<and> (protoSeq_loop sender hash transactions = Ok protoSeq
      \<and> txSeqStream c = Some st' \<and> Recv st' = Inr res'
      \<and> (il = SelectFirst \<or> Send st' \<lparr> Sequence = protoSeq \<rparr> = None) \<longrightarrow>
    SendTransactionSequence sender hash il c transactions
      = (if SequenceResponse res' = [] then Panic IndexOutOfRange
         else Ok (map resp_Hash (SequenceResponse res'),
                  resp_Timestamp (SequenceResponse res' ! 0))))"
  by (auto simp: SendRawTransactionSequence_def SendTransactionSequence_def
      sequence_result_nonempty sequence_result_empty hd_conv_nth)

text \<open>Witness for C10: a received response with no items makes the call panic.\<close>

theorem sequence_timestamp_index_unguarded_witness:
  "SendRawTransactionSequence WriteFirst (raw_seq_client (sequence_stream None [])) [[1], [2]]
     = Panic IndexOutOfRange"
  using sequence_timestamp_index_unguarded
    [where c = "raw_seq_client (sequence_stream None [])"
      and st = "sequence_stream None []" and rawTransactions = "[[1], [2]]"
      and res = "\<lparr> SequenceResponse = [] \<rparr>" and il = WriteFirst]
  by (simp add: raw_seq_client_def sequence_stream_def)

section \<open>Subscriptions\<close>

text \<open>
  The receive loop: while the stream has not ended it has only sent, one event per message
  received; once the stream has ended it has sent the messages before the end, closed the
  channel, and returned the error that ended the stream.
\<close>

lemma recv_loop_running:
  "(\<forall>j<fuel. \<not> isl (res (k + j))) \<Longrightarrow>
   recv_loop res decode fuel k ch
     = (ch @ map (\<lambda>j. ChanSend (decode (projr (res j)))) [k..<k + fuel], None)"
proof (induction fuel arbitrary: k ch)
  case 0
  then show ?case by simp
next
  case (Suc fuel)
  from Suc.prems have "\<not> isl (res (k + 0))" by blast
  then obtain m where m: "res k = Inr m" by (cases "res k") auto
  have "\<forall>j<fuel. \<not> isl (res (Suc k + j))"
    using Suc.prems by (metis Suc_less_eq add_Suc_shift)
  moreover have "[k..<k + Suc fuel] = k # [Suc k..<Suc k + fuel]"
    by (simp add: upt_conv_Cons del: upt_Suc)
  ultimately show ?case
    using Suc.IH [of "Suc k" "ch @ [ChanSend (decode m)]"] m
    by (simp del: upt_Suc)
qed

lemma recv_loop_ends:
  "res (k + n) = Inl err \<Longrightarrow> (\<forall>j<n. \<not> isl (res (k + j))) \<Longrightarrow> n < fuel \<Longrightarrow>
   recv_loop res decode fuel k ch
     = (ch @ map (\<lambda>j. ChanSend (decode (projr (res j)))) [k..<k + n] @ [ChanClose], Some err)"
proof (induction n arbitrary: k ch fuel)
  case 0
  then obtain f where "fuel = Suc f" by (cases fuel) auto
  with 0 show ?case by simp
next
  case (Suc n)
  then obtain f where f: "fuel = Suc f" "n < f" by (cases fuel) auto
  from Suc.prems have "\<not> isl (res (k + 0))" by blast
  then obtain m where m: "res k = Inr m" by (cases "res k") auto
  have a: "res (Suc k + n) = Inl err" using Suc.prems(1) by simp
  have b: "\<forall>j<n. \<not> isl (res (Suc k + j))"
    using Suc.prems(2) by (metis Suc_less_eq add_Suc_shift)
  have u: "[k..<k + Suc n] = k # [Suc k..<Suc k + n]"
    by (simp add: upt_conv_Cons del: upt_Suc)
  from Suc.IH [OF a b f(2), of "ch @ [ChanSend (decode m)]"] m f u show ?case
    by (simp del: upt_Suc)
qed

lemma subscription_run:
  assumes "\<And>fuel. run fuel =
             (case opened of Inl err \<Rightarrow> ([], Some (Wrapped msg err))
              | Inr res \<Rightarrow> recv_loop res decode fuel 0 [])"
  shows "(\<forall>err fuel. opened = Inl err \<longrightarrow> run fuel = ([], Some (Wrapped msg err)))
     \<and> (\<forall>res fuel. opened = Inr res \<and> (\<forall>j<fuel. \<not> isl (res j)) \<longrightarrow>
           run fuel = (map (\<lambda>j. ChanSend (decode (projr (res j)))) [0..<fuel], None))
     \<and> (\<forall>res n err fuel. opened = Inr res \<and> res n = Inl err \<and> (\<forall>j<n. \<not> isl (res j))
             \<and> n < fuel \<longrightarrow>
           run fuel = (map (\<lambda>j. ChanSend (decode (projr (res j)))) [0..<n] @ [ChanClose],
                       Some err))"
proof (intro conjI allI impI)
  fix err fuel assume "opened = Inl err"
  then show "run fuel = ([], Some (Wrapped msg err))" by (simp add: assms)
next
  fix res fuel assume a: "opened = Inr res \<and> (\<forall>j<fuel. \<not> isl (res j))"
  then have "\<forall>j<fuel. \<not> isl (res (0 + j))" by simp
  from recv_loop_running [OF this, of decode "[]"] a
  show "run fuel = (map (\<lambda>j. ChanSend (decode (projr (res j)))) [0..<fuel], None)"
    by (simp add: assms)
next
  fix res n err fuel
  assume a: "opened = Inr res \<and> res n = Inl err \<and> (\<forall>j<n. \<not> isl (res j)) \<and> n < fuel"
  then have "res (0 + n) = Inl err" "\<forall>j<n. \<not> isl (res (0 + j))" "n < fuel" by simp_all
  from recv_loop_ends [OF this, of decode "[]"] a
  show "run fuel = (map (\<lambda>j. ChanSend (decode (projr (res j)))) [0..<n] @ [ChanClose],
                       Some err)"
    by (simp add: assms)
qed

text \<open>
  C4.  For each of the four subscription kinds: if the stream fails to open, the call
  returns the wrapped error at once (with no fuel at all) and does nothing to the channel;
  if the stream opens, then as long as it has not ended the channel has received exactly
  the decoded messages so far, is not closed, and the call has not returned; and once the
  stream ends with an error after \<open>n\<close> messages the channel has received the \<open>n\<close>
  decoded messages followed by one close, nothing after the close, and the call has
  returned that error.
\<close>

theorem subscription_closes_channel_once:
  assumes kind:
    "(run = (\<lambda>fuel. SubscribeNewTxs api_SubscribeNewTxs Encode decode fuel c filter')
        \<and> opened = api_SubscribeNewTxs ctx
             (case filter' of None \<Rightarrow> \<lparr> Encoded = [] \<rparr> | Some f \<Rightarrow> \<lparr> Encoded = Encode f \<rparr>)
        \<and> msg = ''subscribing to transactions'')
     \<or> (run = (\<lambda>fuel. SubscribeNewExecutionPayloadHeaders api_Subscribe decode fuel c)
        \<and> opened = api_Subscribe ctx \<and> msg = ''subscribing to blocks'')
     \<or> (run = (\<lambda>fuel. SubscribeNewExecutionPayloads api_Subscribe decode fuel c)
        \<and> opened = api_Subscribe ctx \<and> msg = ''subscribing to blocks'')
     \<or> (run = (\<lambda>fuel. SubscribeNewBeaconBlocks api_Subscribe decode fuel c)
        \<and> opened = api_Subscribe ctx \<and> msg = ''subscribing to blocks'')"
    and ctx: "ctx = AppendToOutgoingContext Background ''x-api-key'' (key c)"
  shows "(\<forall>err fuel. opened = Inl err \<longrightarrow> run fuel = ([], Some (Wrapped msg err)))
     \<and> (\<forall>res fuel. opened = Inr res \<and> (\<forall>j<fuel. \<not> isl (res j)) \<longrightarrow>
           run fuel = (map (\<lambda>j. ChanSend (decode (projr (res j)))) [0..<fuel], None))
     \<and> (\<forall>res n err fuel. opened = Inr res \<and> res n = Inl err \<and> (\<forall>j<n. \<not> isl (res j))
             \<and> n < fuel \<longrightarrow>
           run fuel = (map (\<lambda>j. ChanSend (decode (projr (res j)))) [0..<n] @ [ChanClose],
                       Some err))"
proof (rule subscription_run)
  fix fuel
  from kind show "run fuel =
             (case opened of Inl err \<Rightarrow> ([], Some (Wrapped msg err))
              | Inr res \<Rightarrow> recv_loop res decode fuel 0 [])"
    unfolding ctx
    by (elim disjE conjE; hypsubst)
       (simp_all add: SubscribeNewTxs_def SubscribeNewExecutionPayloadHeaders_def
          SubscribeNewExecutionPayloads_def SubscribeNewBeaconBlocks_def Let_def)
qed

text \<open>
  Witness for C4: a beacon-block stream that delivers two messages and then ends with
  \<open>EOF\<close>; the channel receives the two decoded messages and one close, and the call
  returns \<open>EOF\<close>.
\<close>

theorem subscription_closes_channel_once_witness:
  "SubscribeNewBeaconBlocks (\<lambda>ctx. Inr two_then_eof) Suc 5 (NewClient ''host'' ''k'')
     = ([ChanSend 11, ChanSend 21, ChanClose], Some (Error ''EOF''))"
proof -
  have ctx: "AppendToOutgoingContext Background ''x-api-key'' ''k''
           = AppendToOutgoingContext Background ''x-api-key'' (key (NewClient ''host'' ''k''))"
    by (simp add: NewClient_def)
  have pre: "Inr two_then_eof = (Inr two_then_eof :: error + (nat \<Rightarrow> error + nat))
             \<and> two_then_eof 2 = Inl (Error ''EOF'') \<and> (\<forall>j<2. \<not> isl (two_then_eof j))
             \<and> (2::nat) < 5"
    by (simp add: two_then_eof_def less_Suc_eq numeral_2_eq_2)
  have "\<forall>res n err fuel. Inr two_then_eof = Inr res \<and> res n = Inl err
             \<and> (\<forall>j<n. \<not> isl (res j)) \<and> n < fuel \<longrightarrow>
           SubscribeNewBeaconBlocks (\<lambda>ctx. Inr two_then_eof) Suc fuel (NewClient ''host'' ''k'')
             = (map (\<lambda>j. ChanSend (Suc (projr (res j)))) [0..<n] @ [ChanClose], Some err)"
    using subscription_closes_channel_once
      [where run = "\<lambda>fuel. SubscribeNewBeaconBlocks (\<lambda>ctx. Inr two_then_eof) Suc fuel
                    (NewClient ''host'' ''k'')"
       and api_Subscribe = "\<lambda>ctx. Inr two_then_eof"
       and opened = "Inr two_then_eof"
       and msg = "''subscribing to blocks''" and decode = Suc
       and c = "NewClient ''host'' ''k''"
       and ctx = "AppendToOutgoingContext Background ''x-api-key'' ''k''"
       and api_SubscribeNewTxs = "\<lambda>ctx (f :: TxFilter). Inr two_then_eof"
       and Encode = "\<lambda>f :: unit. []" and filter' = None, OF _ ctx]
    by simp
  then have "Inr two_then_eof = (Inr two_then_eof :: error + (nat \<Rightarrow> error + nat))
             \<and> two_then_eof 2 = Inl (Error ''EOF'') \<and> (\<forall>j<2. \<not> isl (two_then_eof j))
             \<and> (2::nat) < 5 \<longrightarrow>
     SubscribeNewBeaconBlocks (\<lambda>ctx. Inr two_then_eof) Suc 5 (NewClient ''host'' ''k'')
     = (map (\<lambda>j. ChanSend (Suc (projr (two_then_eof j)))) [0..<2] @ [ChanClose],
        Some (Error ''EOF''))"
    by (elim allE)
  with pre have "SubscribeNewBeaconBlocks (\<lambda>ctx. Inr two_then_eof) Suc 5 (NewClient ''host'' ''k'')
     = (map (\<lambda>j. ChanSend (Suc (projr (two_then_eof j)))) [0..<2] @ [ChanClose],
        Some (Error ''EOF''))"
    by (rule rev_mp)
  then show ?thesis
    by (simp add: two_then_eof_def upt_rec numeral_2_eq_2)
qed

end
